theory Spec2Isabelle
  imports Complex_Main
begin

section \<open>Values of type double\<close>

text \<open>
  A value of the C++ type \<open>double\<close> is a real number or one of the three special
  values of IEEE-754 arithmetic: the two infinities and NaN. The two zeros of IEEE-754
  are one value whose sign is positive.

  The operations come in two arithmetics. The first is exact: a finite result is the
  real number itself, never rounded and never overflowing, while division by zero yields
  an infinity or NaN as the hardware does. It is the arithmetic of the properties that
  are stated in exact real arithmetic, and of the inputs whose results need no rounding.
  The second is binary64, the arithmetic of the machine: every finite result is rounded
  to the nearest double, ties to even, and overflows to an infinity. The constructor is
  modelled in both.
\<close>

datatype double = Num real | PosInf | NegInf | NaN

fun isFinite :: "double \<Rightarrow> bool" where
  "isFinite (Num a) = True"
| "isFinite PosInf = False"
| "isFinite NegInf = False"
| "isFinite NaN = False"

text \<open>Addition, the \<open>+=\<close> of the summing loop.\<close>

fun dadd :: "double \<Rightarrow> double \<Rightarrow> double" where
  "dadd (Num a) (Num b) = Num (a + b)"
| "dadd (Num a) PosInf = PosInf"
| "dadd (Num a) NegInf = NegInf"
| "dadd PosInf (Num b) = PosInf"
| "dadd PosInf PosInf = PosInf"
| "dadd NegInf (Num b) = NegInf"
| "dadd NegInf NegInf = NegInf"
| "dadd PosInf NegInf = NaN"
| "dadd NegInf PosInf = NaN"
| "dadd NaN y = NaN"
| "dadd x NaN = NaN"

text \<open>
  Division, the \<open>/=\<close> of the normalising loop: a nonzero number over zero is an
  infinity of the sign of the numerator, zero over zero and infinity over infinity are
  NaN, a number over an infinity is zero.
\<close>

fun ddiv :: "double \<Rightarrow> double \<Rightarrow> double" where
  "ddiv (Num a) (Num b) =
     (if b = 0 then (if 0 < a then PosInf else if a < 0 then NegInf else NaN)
      else Num (a / b))"
| "ddiv (Num a) PosInf = Num 0"
| "ddiv (Num a) NegInf = Num 0"
| "ddiv PosInf (Num b) = (if b < 0 then NegInf else PosInf)"
| "ddiv NegInf (Num b) = (if b < 0 then PosInf else NegInf)"
| "ddiv PosInf PosInf = NaN"
| "ddiv PosInf NegInf = NaN"
| "ddiv NegInf PosInf = NaN"
| "ddiv NegInf NegInf = NaN"
| "ddiv NaN y = NaN"
| "ddiv x NaN = NaN"

text \<open>
  Multiplication. The program never multiplies; the product is needed to state the
  hazard property in its multiplicative form.
\<close>

fun dmul :: "double \<Rightarrow> double \<Rightarrow> double" where
  "dmul (Num a) (Num b) = Num (a * b)"
| "dmul (Num a) PosInf = (if a = 0 then NaN else if 0 < a then PosInf else NegInf)"
| "dmul (Num a) NegInf = (if a = 0 then NaN else if 0 < a then NegInf else PosInf)"
| "dmul PosInf (Num b) = (if b = 0 then NaN else if 0 < b then PosInf else NegInf)"
| "dmul NegInf (Num b) = (if b = 0 then NaN else if 0 < b then NegInf else PosInf)"
| "dmul PosInf PosInf = PosInf"
| "dmul PosInf NegInf = NegInf"
| "dmul NegInf PosInf = NegInf"
| "dmul NegInf NegInf = PosInf"
| "dmul NaN y = NaN"
| "dmul x NaN = NaN"

text \<open>The comparison \<open>!=\<close>: NaN differs from everything, itself included.\<close>

fun dneq :: "double \<Rightarrow> double \<Rightarrow> bool" where
  "dneq NaN y = True"
| "dneq x NaN = True"
| "dneq x y = (x \<noteq> y)"

section \<open>The class DistributionNonparametric\<close>

text \<open>
  The fields the source file reads and writes. \<open>maxDay\<close> holds the size of a vector,
  a natural number.
\<close>

record DistributionNonparametric =
  waitingTime :: "double list"
  transitionProb :: "double list"
  maxDay :: nat
  distName :: string

text \<open>
  The object as the constructor's body finds it: the vectors empty, the other fields
  not yet assigned a meaningful value (both are assigned before the constructor returns).
\<close>

definition uninitialized :: DistributionNonparametric where
  "uninitialized = \<lparr>waitingTime = [], transitionProb = [], maxDay = 0, distName = []\<rparr>"

subsection \<open>The summing loop\<close>

text \<open>
  \<^verbatim>\<open>double sumWaitingTime {0}; for (auto& wt: waitingTime) sumWaitingTime += wt;\<close>
  The accumulator starts at zero and takes the elements from left to right.
\<close>

fun sumLoop :: "double \<Rightarrow> double list \<Rightarrow> double" where
  "sumLoop acc [] = acc"
| "sumLoop acc (wt # rest) = sumLoop (dadd acc wt) rest"

definition sumWaitingTime :: "double list \<Rightarrow> double" where
  "sumWaitingTime wt = sumLoop (Num 0) wt"

subsection \<open>The normalising loop\<close>

text \<open>
  \<^verbatim>\<open>for (size_t i {0}; i < waitingTime.size(); ++i) waitingTime[i] /= sumWaitingTime;\<close>
  The index runs below the size of the vector, so every access is in range.
\<close>

function normalizeLoop :: "double \<Rightarrow> nat \<Rightarrow> double list \<Rightarrow> double list" where
  "normalizeLoop s i wt =
     (if i < length wt then normalizeLoop s (Suc i) (wt[i := ddiv (wt ! i) s]) else wt)"
  by pat_completeness auto
termination
  by (relation "measure (\<lambda>(s, i, wt). length wt - i)") auto

declare normalizeLoop.simps [simp del]

subsection \<open>The survival mass and the hazard of one day\<close>

text \<open>
  The sum of the entries from index \<open>k\<close> to the end: the survival mass \<open>S(k)\<close>.
\<close>

definition survivalMass :: "double list \<Rightarrow> nat \<Rightarrow> double" where
  "survivalMass wt k = sumLoop (Num 0) (drop k wt)"

text \<open>
  Modelled from the spec: \<open>calcTransitionProbHelper\<close> is a member of the base class,
  whose source file is not among the sources. The specification gives the value it
  computes for an index \<open>k\<close> below the length: the entry at \<open>k\<close> divided by the survival
  mass \<open>S(k)\<close>, with no special case for a survival mass of zero.
\<close>

definition calcTransitionProbHelper :: "double list \<Rightarrow> nat \<Rightarrow> double" where
  "calcTransitionProbHelper wt k = ddiv (wt ! k) (survivalMass wt k)"

subsection \<open>calcTransitionProb\<close>

text \<open>
  \<^verbatim>\<open>for (size_t k {0}; k < waitingTime.size(); ++k)
    transitionProb.push_back(calcTransitionProbHelper(waitingTime, k));\<close>
\<close>

function pushLoop :: "double list \<Rightarrow> nat \<Rightarrow> double list \<Rightarrow> double list" where
  "pushLoop wt k tp =
     (if k < length wt then pushLoop wt (Suc k) (tp @ [calcTransitionProbHelper wt k])
      else tp)"
  by pat_completeness auto
termination
  by (relation "measure (\<lambda>(wt, k, tp). length wt - k)") auto

declare pushLoop.simps [simp del]

definition calcTransitionProb :: "DistributionNonparametric \<Rightarrow> DistributionNonparametric" where
  "calcTransitionProb this =
     (let tp = pushLoop (waitingTime this) 0 (transitionProb this)
      in this\<lparr>transitionProb := tp, maxDay := length tp\<rparr>)"

subsection \<open>The constructor\<close>

definition newDistributionNonparametric :: "double list \<Rightarrow> DistributionNonparametric" where
  "newDistributionNonparametric wt0 =
     (let s = sumWaitingTime wt0;
          wt = (if dneq s (Num 1) then normalizeLoop s 0 wt0 else wt0);
          this = calcTransitionProb (uninitialized\<lparr>waitingTime := wt\<rparr>)
      in this\<lparr>distName := ''nonparametric''\<rparr>)"

subsection \<open>The queries\<close>

definition getTransitionProb :: "DistributionNonparametric \<Rightarrow> nat \<Rightarrow> double" where
  "getTransitionProb this index =
     (if index \<ge> length (transitionProb this) then Num 1 else transitionProb this ! index)"

definition getWaitingTime :: "DistributionNonparametric \<Rightarrow> double list" where
  "getWaitingTime this = waitingTime this"

subsection \<open>Notions used to state the properties\<close>

text \<open>The stored values that are not numbers: the infinities and NaN.\<close>

definition undefinedValues :: "DistributionNonparametric \<Rightarrow> double list" where
  "undefinedValues this = filter (\<lambda>d. \<not> isFinite d) (waitingTime this @ transitionProb this)"

text \<open>The input \<open>c \<cdot> w\<close>: every weight multiplied by the constant \<open>c\<close>.\<close>

definition scaleWeights :: "real \<Rightarrow> double list \<Rightarrow> double list" where
  "scaleWeights c wt = map (dmul (Num c)) wt"

section \<open>Binary64 arithmetic\<close>

text \<open>
  A double has a significand of 53 bits and an exponent between \<open>-1022\<close> and 1023.
  Between \<open>2^e\<close> and \<open>2^(e+1)\<close> the doubles are the multiples of \<open>2^(e-52)\<close>; below
  \<open>2^(-1022)\<close> they are the multiples of \<open>2^(-1074)\<close>.
\<close>

definition pow2 :: "int \<Rightarrow> real" where
  "pow2 e = (if 0 \<le> e then 2 ^ nat e else 1 / 2 ^ nat (- e))"

text \<open>The exponent of the binade of a nonzero number, and the spacing of the doubles there.\<close>

definition binade :: "real \<Rightarrow> int" where
  "binade x = max (- 1022) \<lfloor>log 2 \<bar>x\<bar>\<rfloor>"

definition ulp :: "real \<Rightarrow> real" where
  "ulp x = pow2 (binade x - 52)"

text \<open>The nearest integer, the even one of the two when both are equally near.\<close>

definition roundHalfEven :: "real \<Rightarrow> int" where
  "roundHalfEven q =
     (let f = \<lfloor>q\<rfloor>
      in if q - of_int f < 1 / 2 then f
         else if 1 / 2 < q - of_int f then f + 1
         else if even f then f else f + 1)"

text \<open>
  Rounding to nearest, ties to even: the result is the nearest multiple of the spacing,
  or an infinity when that multiple reaches \<open>2^1024\<close>.
\<close>

definition round64 :: "real \<Rightarrow> double" where
  "round64 x =
     (if x = 0 then Num 0
      else let y = of_int (roundHalfEven (x / ulp x)) * ulp x
           in if 2 ^ 1024 \<le> \<bar>y\<bar> then (if 0 < x then PosInf else NegInf) else Num y)"

text \<open>
  An operation of binary64 is the exact operation followed by rounding; the special
  values need none.
\<close>

fun rnd :: "double \<Rightarrow> double" where
  "rnd (Num x) = round64 x"
| "rnd PosInf = PosInf"
| "rnd NegInf = NegInf"
| "rnd NaN = NaN"

definition add64 :: "double \<Rightarrow> double \<Rightarrow> double" where
  "add64 x y = rnd (dadd x y)"

definition div64 :: "double \<Rightarrow> double \<Rightarrow> double" where
  "div64 x y = rnd (ddiv x y)"

definition mul64 :: "double \<Rightarrow> double \<Rightarrow> double" where
  "mul64 x y = rnd (dmul x y)"


subsection \<open>The constructor in binary64\<close>

text \<open>
  The same loops as above, with the rounded addition and division in place of the exact
  ones.
\<close>

fun sumLoop64 :: "double \<Rightarrow> double list \<Rightarrow> double" where
  "sumLoop64 acc [] = acc"
| "sumLoop64 acc (wt # rest) = sumLoop64 (add64 acc wt) rest"

definition sumWaitingTime64 :: "double list \<Rightarrow> double" where
  "sumWaitingTime64 wt = sumLoop64 (Num 0) wt"

function normalizeLoop64 :: "double \<Rightarrow> nat \<Rightarrow> double list \<Rightarrow> double list" where
  "normalizeLoop64 s i wt =
     (if i < length wt then normalizeLoop64 s (Suc i) (wt[i := div64 (wt ! i) s]) else wt)"
  by pat_completeness auto
termination
  by (relation "measure (\<lambda>(s, i, wt). length wt - i)") auto

declare normalizeLoop64.simps [simp del]

definition survivalMass64 :: "double list \<Rightarrow> nat \<Rightarrow> double" where
  "survivalMass64 wt k = sumLoop64 (Num 0) (drop k wt)"

text \<open>
  Modelled from the spec: \<open>calcTransitionProbHelper\<close>, whose source file is not among
  the sources, in binary64: the entry at \<open>k\<close> divided by the survival mass \<open>S(k)\<close>,
  the sum of the entries from \<open>k\<close> to the end taken from left to right.
\<close>

definition calcTransitionProbHelper64 :: "double list \<Rightarrow> nat \<Rightarrow> double" where
  "calcTransitionProbHelper64 wt k = div64 (wt ! k) (survivalMass64 wt k)"

function pushLoop64 :: "double list \<Rightarrow> nat \<Rightarrow> double list \<Rightarrow> double list" where
  "pushLoop64 wt k tp =
     (if k < length wt then pushLoop64 wt (Suc k) (tp @ [calcTransitionProbHelper64 wt k])
      else tp)"
  by pat_completeness auto
termination
  by (relation "measure (\<lambda>(wt, k, tp). length wt - k)") auto

declare pushLoop64.simps [simp del]

definition calcTransitionProb64 :: "DistributionNonparametric \<Rightarrow> DistributionNonparametric" where
  "calcTransitionProb64 this =
     (let tp = pushLoop64 (waitingTime this) 0 (transitionProb this)
      in this\<lparr>transitionProb := tp, maxDay := length tp\<rparr>)"

definition newDistributionNonparametric64 :: "double list \<Rightarrow> DistributionNonparametric" where
  "newDistributionNonparametric64 wt0 =
     (let s = sumWaitingTime64 wt0;
          wt = (if dneq s (Num 1) then normalizeLoop64 s 0 wt0 else wt0);
          this = calcTransitionProb64 (uninitialized\<lparr>waitingTime := wt\<rparr>)
      in this\<lparr>distName := ''nonparametric''\<rparr>)"

section \<open>What the loops compute\<close>

lemma normalizeLoop_length: "length (normalizeLoop s i wt) = length wt"
proof (induction s i wt rule: normalizeLoop.induct)
  case (1 s i wt)
  show ?case
  proof (cases "i < length wt")
    case True
    with 1 show ?thesis by (subst normalizeLoop.simps) simp
  next
    case False
    then show ?thesis by (subst normalizeLoop.simps) simp
  qed
qed

lemma normalizeLoop_eq:
  "normalizeLoop s i wt = take i wt @ map (\<lambda>x. ddiv x s) (drop i wt)"
proof (induction s i wt rule: normalizeLoop.induct)
  case (1 s i wt)
  show ?case
  proof (cases "i < length wt")
    case True
    have "normalizeLoop s i wt = normalizeLoop s (Suc i) (wt[i := ddiv (wt ! i) s])"
      using True by (subst normalizeLoop.simps) simp
    also have "\<dots> = take (Suc i) (wt[i := ddiv (wt ! i) s])
                     @ map (\<lambda>x. ddiv x s) (drop (Suc i) (wt[i := ddiv (wt ! i) s]))"
      using 1 True by simp
    also have "\<dots> = take i wt @ [ddiv (wt ! i) s] @ map (\<lambda>x. ddiv x s) (drop (Suc i) wt)"
      using True by (simp add: take_Suc_conv_app_nth)
    also have "\<dots> = take i wt @ map (\<lambda>x. ddiv x s) (drop i wt)"
      using True by (simp add: Cons_nth_drop_Suc [symmetric])
    finally show ?thesis .
  next
    case False
    then show ?thesis by (subst normalizeLoop.simps) simp
  qed
qed

lemma normalizeLoop_map: "normalizeLoop s 0 wt = map (\<lambda>x. ddiv x s) wt"
  by (simp add: normalizeLoop_eq)

lemma pushLoop_eq:
  "pushLoop wt k tp = tp @ map (calcTransitionProbHelper wt) [k..<length wt]"
proof (induction wt k tp rule: pushLoop.induct)
  case (1 wt k tp)
  show ?case
  proof (cases "k < length wt")
    case True
    have "pushLoop wt k tp = pushLoop wt (Suc k) (tp @ [calcTransitionProbHelper wt k])"
      using True by (subst pushLoop.simps) simp
    also have "\<dots> = (tp @ [calcTransitionProbHelper wt k])
                     @ map (calcTransitionProbHelper wt) [Suc k..<length wt]"
      using 1 True by simp
    also have "\<dots> = tp @ map (calcTransitionProbHelper wt) [k..<length wt]"
      using True by (simp add: upt_conv_Cons)
    finally show ?thesis .
  next
    case False
    then show ?thesis by (subst pushLoop.simps) simp
  qed
qed

lemma pushLoop_length: "length (pushLoop wt k tp) = length tp + (length wt - k)"
  by (simp add: pushLoop_eq)

text \<open>The fields of a constructed object, one by one.\<close>

lemma new_waitingTime:
  "waitingTime (newDistributionNonparametric wt0) =
     (if dneq (sumWaitingTime wt0) (Num 1)
      then map (\<lambda>x. ddiv x (sumWaitingTime wt0)) wt0 else wt0)"
  by (simp add: newDistributionNonparametric_def calcTransitionProb_def Let_def
      normalizeLoop_map)

lemma new_transitionProb:
  "transitionProb (newDistributionNonparametric wt0) =
     map (calcTransitionProbHelper (waitingTime (newDistributionNonparametric wt0)))
       [0..<length wt0]"
  by (simp add: newDistributionNonparametric_def calcTransitionProb_def Let_def
      uninitialized_def pushLoop_eq normalizeLoop_length)

lemma new_maxDay:
  "maxDay (newDistributionNonparametric wt0) =
     length (transitionProb (newDistributionNonparametric wt0))"
  by (simp add: newDistributionNonparametric_def calcTransitionProb_def Let_def)

lemma new_distName: "distName (newDistributionNonparametric wt0) = ''nonparametric''"
  by (simp add: newDistributionNonparametric_def Let_def)

lemma new_waitingTime_length:
  "length (waitingTime (newDistributionNonparametric wt0)) = length wt0"
  by (simp add: new_waitingTime)

lemma new_determined:
  assumes "waitingTime (newDistributionNonparametric a) = waitingTime (newDistributionNonparametric b)"
  shows "newDistributionNonparametric a = newDistributionNonparametric b"
proof -
  have "length a = length b"
    using assms by (metis new_waitingTime_length)
  then have "transitionProb (newDistributionNonparametric a)
               = transitionProb (newDistributionNonparametric b)"
    using assms by (simp add: new_transitionProb)
  then show ?thesis
    using assms by (simp add: new_maxDay new_distName)
qed

text \<open>The facts that evaluate a construction on a concrete input.\<close>

lemmas run_simps =
  new_waitingTime new_transitionProb new_maxDay new_distName sumWaitingTime_def
  survivalMass_def calcTransitionProbHelper_def getTransitionProb_def getWaitingTime_def
  upt_conv_Cons

section \<open>Sums of doubles\<close>

text \<open>
  A sum of numbers is the number that \<open>sum_list\<close> gives; and a sum that is a number
  has only numbers as summands, because an infinity or NaN never leaves the accumulator.
\<close>

lemma sumLoop_Num: "sumLoop (Num a) (map Num rs) = Num (a + sum_list rs)"
  by (induction rs arbitrary: a) (simp_all add: add.assoc)

lemma sumWaitingTime_Num: "sumWaitingTime (map Num rs) = Num (sum_list rs)"
  by (simp add: sumWaitingTime_def sumLoop_Num)

lemma dadd_Num_D: "dadd x y = Num s \<Longrightarrow> \<exists>a b. x = Num a \<and> y = Num b \<and> s = a + b"
  by (cases x; cases y) simp_all

lemma sumLoop_finite_D:
  "sumLoop acc xs = Num s \<Longrightarrow> \<exists>a rs. acc = Num a \<and> xs = map Num rs \<and> s = a + sum_list rs"
proof (induction xs arbitrary: acc)
  case Nil
  then show ?case by simp
next
  case (Cons x xs)
  from Cons.prems have "sumLoop (dadd acc x) xs = Num s" by simp
  from Cons.IH [OF this] obtain c rs
    where c: "dadd acc x = Num c" "xs = map Num rs" "s = c + sum_list rs"
    by blast
  from dadd_Num_D [OF c(1)] obtain a b where "acc = Num a" "x = Num b" "c = a + b"
    by blast
  then have "acc = Num a \<and> x # xs = map Num (b # rs) \<and> s = a + sum_list (b # rs)"
    using c by simp
  then show ?case by (intro exI)
qed

lemma sumWaitingTime_finite_D:
  "sumWaitingTime wt = Num s \<Longrightarrow> \<exists>rs. wt = map Num rs \<and> s = sum_list rs"
  unfolding sumWaitingTime_def by (drule sumLoop_finite_D) auto



lemma sumLoop_zeros: "sumLoop (Num 0) (replicate n (Num 0)) = Num 0"
  by (induction n) simp_all

section \<open>Evaluating binary64\<close>

text \<open>
  A number in the binade of exponent \<open>e\<close> rounds to the multiple \<open>m\<close> of the spacing
  that \<open>roundHalfEven\<close> selects.
\<close>

lemma pow2_powr: "pow2 e = 2 powr real_of_int e"
  by (simp add: pow2_def powr_real_of_int field_simps)

lemma binade_eqI:
  assumes "pow2 e \<le> \<bar>x\<bar>" "\<bar>x\<bar> < pow2 (e + 1)" "- 1022 \<le> e"
  shows "binade x = e"
proof -
  have pos: "0 < \<bar>x\<bar>"
    using assms(1) by (simp add: pow2_powr) (smt (verit) powr_gt_zero)
  have "\<lfloor>log 2 \<bar>x\<bar>\<rfloor> = e"
  proof (rule floor_unique)
    show "of_int e \<le> log 2 \<bar>x\<bar>"
      using assms(1) pos by (simp add: pow2_powr le_log_iff)
    show "log 2 \<bar>x\<bar> < of_int e + 1"
      using assms(2) pos by (simp add: pow2_powr log_less_iff add.commute)
  qed
  then show ?thesis using assms(3) by (simp add: binade_def)
qed

lemma round64_eval:
  assumes "pow2 e \<le> \<bar>x\<bar>" "\<bar>x\<bar> < pow2 (e + 1)" "- 1022 \<le> e"
    and "roundHalfEven (x / pow2 (e - 52)) = m"
    and "\<bar>of_int m * pow2 (e - 52)\<bar> < 2 ^ 1024"
  shows "round64 x = Num (of_int m * pow2 (e - 52))"
proof -
  have b: "binade x = e" by (rule binade_eqI) (rule assms)+
  have "0 < pow2 e" by (simp add: pow2_def)
  then have "x \<noteq> 0" using assms(1) by auto
  then show ?thesis using assms(4,5) by (simp add: round64_def ulp_def b Let_def)
qed


text \<open>The sums, quotients and products that the examples below need.\<close>

lemma add64_zero: "add64 (Num 0) (Num 0) = Num 0"
  by (simp add: add64_def round64_def)

lemma add64_1: "add64 (Num 0) (Num 1) = Num 1"
  using round64_eval [of "0" "0 + 1" "4503599627370496"]
  by (simp add: add64_def pow2_def roundHalfEven_def Let_def)

lemma add64_2: "add64 (Num 1) (Num 0) = Num 1"
  using round64_eval [of "0" "1 + 0" "4503599627370496"]
  by (simp add: add64_def pow2_def roundHalfEven_def Let_def)

lemma add64_3: "add64 (Num 1) (Num 5) = Num 6"
  using round64_eval [of "2" "1 + 5" "6755399441055744"]
  by (simp add: add64_def pow2_def roundHalfEven_def Let_def)

lemma add64_4: "add64 (Num 6) (Num 14) = Num 20"
  using round64_eval [of "4" "6 + 14" "5629499534213120"]
  by (simp add: add64_def pow2_def roundHalfEven_def Let_def)

lemma div64_5: "div64 (Num 1) (Num 20) = Num (3602879701896397 / 72057594037927936)"
  using round64_eval [of "- 5" "1 / 20" "7205759403792794"]
  by (simp add: div64_def pow2_def roundHalfEven_def Let_def)

lemma div64_6: "div64 (Num 5) (Num 20) = Num (1 / 4)"
  using round64_eval [of "- 2" "5 / 20" "4503599627370496"]
  by (simp add: div64_def pow2_def roundHalfEven_def Let_def)

lemma div64_7: "div64 (Num 14) (Num 20) = Num (3152519739159347 / 4503599627370496)"
  using round64_eval [of "- 1" "14 / 20" "6305039478318694"]
  by (simp add: div64_def pow2_def roundHalfEven_def Let_def)

lemma add64_8: "add64 (Num 0) (Num (1 / 4)) = Num (1 / 4)"
  using round64_eval [of "- 2" "0 + (1 / 4)" "4503599627370496"]
  by (simp add: add64_def pow2_def roundHalfEven_def Let_def)

lemma add64_9: "add64 (Num (1 / 4)) (Num (3152519739159347 / 4503599627370496)) = Num (4278419646001971 / 4503599627370496)"
  using round64_eval [of "- 1" "(1 / 4) + (3152519739159347 / 4503599627370496)" "8556839292003942"]
  by (simp add: add64_def pow2_def roundHalfEven_def Let_def)

lemma div64_10: "div64 (Num (1 / 4)) (Num (4278419646001971 / 4503599627370496)) = Num (4740631186705785 / 18014398509481984)"
  using round64_eval [of "- 2" "(1 / 4) / (4278419646001971 / 4503599627370496)" "4740631186705785"]
  by (simp add: div64_def pow2_def roundHalfEven_def Let_def)

lemma mul64_11: "mul64 (Num (4740631186705785 / 18014398509481984)) (Num (4278419646001971 / 4503599627370496)) = Num (9007199254740991 / 36028797018963968)"
  using round64_eval [of "- 3" "(4740631186705785 / 18014398509481984) * (4278419646001971 / 4503599627370496)" "9007199254740991"]
  by (simp add: mul64_def pow2_def roundHalfEven_def Let_def)

lemma add64_12: "add64 (Num 1) (Num 4) = Num 5"
  using round64_eval [of "2" "1 + 4" "5629499534213120"]
  by (simp add: add64_def pow2_def roundHalfEven_def Let_def)

lemma add64_13: "add64 (Num 5) (Num 1) = Num 6"
  using round64_eval [of "2" "5 + 1" "6755399441055744"]
  by (simp add: add64_def pow2_def roundHalfEven_def Let_def)

lemma div64_14: "div64 (Num 1) (Num 6) = Num (6004799503160661 / 36028797018963968)"
  using round64_eval [of "- 3" "1 / 6" "6004799503160661"]
  by (simp add: div64_def pow2_def roundHalfEven_def Let_def)

lemma div64_15: "div64 (Num 4) (Num 6) = Num (6004799503160661 / 9007199254740992)"
  using round64_eval [of "- 1" "4 / 6" "6004799503160661"]
  by (simp add: div64_def pow2_def roundHalfEven_def Let_def)

lemma add64_16: "add64 (Num 0) (Num (6004799503160661 / 36028797018963968)) = Num (6004799503160661 / 36028797018963968)"
  using round64_eval [of "- 3" "0 + (6004799503160661 / 36028797018963968)" "6004799503160661"]
  by (simp add: add64_def pow2_def roundHalfEven_def Let_def)

lemma add64_17: "add64 (Num (6004799503160661 / 36028797018963968)) (Num (6004799503160661 / 9007199254740992)) = Num (3752999689475413 / 4503599627370496)"
  using round64_eval [of "- 1" "(6004799503160661 / 36028797018963968) + (6004799503160661 / 9007199254740992)" "7505999378950826"]
  by (simp add: add64_def pow2_def roundHalfEven_def Let_def)

lemma add64_18: "add64 (Num (3752999689475413 / 4503599627370496)) (Num (6004799503160661 / 36028797018963968)) = Num (9007199254740991 / 9007199254740992)"
  using round64_eval [of "- 1" "(3752999689475413 / 4503599627370496) + (6004799503160661 / 36028797018963968)" "9007199254740991"]
  by (simp add: add64_def pow2_def roundHalfEven_def Let_def)

lemma add64_19: "add64 (Num 0) (Num (1 / 2)) = Num (1 / 2)"
  using round64_eval [of "- 1" "0 + (1 / 2)" "4503599627370496"]
  by (simp add: add64_def pow2_def roundHalfEven_def Let_def)

lemma add64_20: "add64 (Num (1 / 2)) (Num (1 / 18014398509481984)) = Num (1 / 2)"
  using round64_eval [of "- 1" "(1 / 2) + (1 / 18014398509481984)" "4503599627370496"]
  by (simp add: add64_def pow2_def roundHalfEven_def Let_def)

lemma add64_21: "add64 (Num (1 / 2)) (Num (4503599627370495 / 9007199254740992)) = Num (9007199254740991 / 9007199254740992)"
  using round64_eval [of "- 1" "(1 / 2) + (4503599627370495 / 9007199254740992)" "9007199254740991"]
  by (simp add: add64_def pow2_def roundHalfEven_def Let_def)

lemma div64_22: "div64 (Num (1 / 2)) (Num (9007199254740991 / 9007199254740992)) = Num (4503599627370497 / 9007199254740992)"
  using round64_eval [of "- 1" "(1 / 2) / (9007199254740991 / 9007199254740992)" "4503599627370497"]
  by (simp add: div64_def pow2_def roundHalfEven_def Let_def)

lemma add64_23: "add64 (Num (1 / 2)) (Num (1 / 2)) = Num 1"
  using round64_eval [of "0" "(1 / 2) + (1 / 2)" "4503599627370496"]
  by (simp add: add64_def pow2_def roundHalfEven_def Let_def)

lemma div64_24: "div64 (Num (1 / 2)) (Num 1) = Num (1 / 2)"
  using round64_eval [of "- 1" "(1 / 2) / 1" "4503599627370496"]
  by (simp add: div64_def pow2_def roundHalfEven_def Let_def)

lemma div64_25: "div64 (Num (1 / 2)) (Num (1 / 2)) = Num 1"
  using round64_eval [of "0" "(1 / 2) / (1 / 2)" "4503599627370496"]
  by (simp add: div64_def pow2_def roundHalfEven_def Let_def)

lemma add64_26: "add64 (Num (1 / 4)) (Num (3 / 4)) = Num 1"
  using round64_eval [of "0" "(1 / 4) + (3 / 4)" "4503599627370496"]
  by (simp add: add64_def pow2_def roundHalfEven_def Let_def)

lemmas binary64_values = add64_zero add64_1 add64_2 add64_3 add64_4 div64_5 div64_6 div64_7 add64_8 add64_9 div64_10 mul64_11 add64_12 add64_13 div64_14 div64_15 add64_16 add64_17 add64_18 add64_19 add64_20 add64_21 div64_22 add64_23 div64_24 div64_25 add64_26

text \<open>What the loops of the binary64 constructor compute.\<close>

lemma normalizeLoop64_eq:
  "normalizeLoop64 s i wt = take i wt @ map (\<lambda>x. div64 x s) (drop i wt)"
proof (induction s i wt rule: normalizeLoop64.induct)
  case (1 s i wt)
  show ?case
  proof (cases "i < length wt")
    case True
    have "normalizeLoop64 s i wt = normalizeLoop64 s (Suc i) (wt[i := div64 (wt ! i) s])"
      using True by (subst normalizeLoop64.simps) simp
    also have "\<dots> = take (Suc i) (wt[i := div64 (wt ! i) s])
                     @ map (\<lambda>x. div64 x s) (drop (Suc i) (wt[i := div64 (wt ! i) s]))"
      using 1 True by simp
    also have "\<dots> = take i wt @ [div64 (wt ! i) s] @ map (\<lambda>x. div64 x s) (drop (Suc i) wt)"
      using True by (simp add: take_Suc_conv_app_nth)
    also have "\<dots> = take i wt @ map (\<lambda>x. div64 x s) (drop i wt)"
      using True by (simp add: Cons_nth_drop_Suc [symmetric])
    finally show ?thesis .
  next
    case False
    then show ?thesis by (subst normalizeLoop64.simps) simp
  qed
qed

lemma pushLoop64_eq:
  "pushLoop64 wt k tp = tp @ map (calcTransitionProbHelper64 wt) [k..<length wt]"
proof (induction wt k tp rule: pushLoop64.induct)
  case (1 wt k tp)
  show ?case
  proof (cases "k < length wt")
    case True
    have "pushLoop64 wt k tp = pushLoop64 wt (Suc k) (tp @ [calcTransitionProbHelper64 wt k])"
      using True by (subst pushLoop64.simps) simp
    also have "\<dots> = (tp @ [calcTransitionProbHelper64 wt k])
                     @ map (calcTransitionProbHelper64 wt) [Suc k..<length wt]"
      using 1 True by simp
    also have "\<dots> = tp @ map (calcTransitionProbHelper64 wt) [k..<length wt]"
      using True by (simp add: upt_conv_Cons)
    finally show ?thesis .
  next
    case False
    then show ?thesis by (subst pushLoop64.simps) simp
  qed
qed

lemma new64_waitingTime:
  "waitingTime (newDistributionNonparametric64 wt0) =
     (if dneq (sumWaitingTime64 wt0) (Num 1)
      then map (\<lambda>x. div64 x (sumWaitingTime64 wt0)) wt0 else wt0)"
  by (simp add: newDistributionNonparametric64_def calcTransitionProb64_def Let_def
      normalizeLoop64_eq)

lemma new64_transitionProb:
  "transitionProb (newDistributionNonparametric64 wt0) =
     map (calcTransitionProbHelper64 (waitingTime (newDistributionNonparametric64 wt0)))
       [0..<length wt0]"
  by (simp add: newDistributionNonparametric64_def calcTransitionProb64_def Let_def
      uninitialized_def pushLoop64_eq normalizeLoop64_eq)

lemmas run64_simps =
  new64_waitingTime new64_transitionProb sumWaitingTime64_def survivalMass64_def
  calcTransitionProbHelper64_def getWaitingTime_def upt_conv_Cons binary64_values

section \<open>The hazard of each day\<close>




section \<open>Saturation beyond the last day\<close>

text \<open>
  Claim C2. For every constructed distribution, \<open>maxDay\<close> is the length of the stored
  transition-probability sequence; \<open>getTransitionProb\<close> returns exactly 1 at every
  index greater than or equal to \<open>maxDay\<close>, and the stored transition probability at
  every index below it.
\<close>

theorem saturation:
  "maxDay (newDistributionNonparametric wt0)
     = length (transitionProb (newDistributionNonparametric wt0))
   \<and> (maxDay (newDistributionNonparametric wt0) \<le> index
        \<longrightarrow> getTransitionProb (newDistributionNonparametric wt0) index = Num 1)
   \<and> (index < maxDay (newDistributionNonparametric wt0)
        \<longrightarrow> getTransitionProb (newDistributionNonparametric wt0) index
            = transitionProb (newDistributionNonparametric wt0) ! index)"
  by (simp add: new_maxDay getTransitionProb_def)

theorem saturation_witness:
  "maxDay (newDistributionNonparametric [Num 1, Num 3]) = 2
   \<and> getTransitionProb (newDistributionNonparametric [Num 1, Num 3]) 2 = Num 1
   \<and> getTransitionProb (newDistributionNonparametric [Num 1, Num 3]) 0 = Num (1 / 4)"
proof -
  let ?d = "newDistributionNonparametric [Num 1, Num 3]"
  have m: "maxDay ?d = 2"
    by (simp add: new_maxDay new_transitionProb)
  have t: "transitionProb ?d ! 0 = Num (1 / 4)"
    by (simp add: run_simps)
  from saturation [of "[Num 1, Num 3]" 2] saturation [of "[Num 1, Num 3]" 0] m t
  show ?thesis by simp
qed

section \<open>Normalization\<close>




section \<open>The length invariant\<close>

text \<open>
  Claim C4. For every input sequence, the constructed object's transition-probability
  sequence is as long as its stored waiting-time sequence, and \<open>maxDay\<close> is that common
  length.
\<close>

theorem length_invariant:
  "length (transitionProb (newDistributionNonparametric wt0))
     = length (waitingTime (newDistributionNonparametric wt0))
   \<and> maxDay (newDistributionNonparametric wt0)
     = length (waitingTime (newDistributionNonparametric wt0))
   \<and> maxDay (newDistributionNonparametric wt0)
     = length (getWaitingTime (newDistributionNonparametric wt0))"
  by (simp add: new_maxDay new_transitionProb new_waitingTime_length getWaitingTime_def)

section \<open>The scenarios\<close>

text \<open>
  Claim C5. For the input \<open>[1, 1, 2]\<close> the constructed object stores the waiting-time
  sequence \<open>[0.25, 0.25, 0.5]\<close> and the transition probabilities \<open>0.25\<close>,
  \<open>0.25 / 0.75\<close> and \<open>1.0\<close> at the indices 0, 1 and 2; \<open>maxDay\<close> is 3, and
  \<open>getTransitionProb\<close> returns 1 at the indices 3 and 100.
\<close>

theorem scenario_A:
  "getWaitingTime (newDistributionNonparametric [Num 1, Num 1, Num 2])
     = [Num 0.25, Num 0.25, Num 0.5]
   \<and> transitionProb (newDistributionNonparametric [Num 1, Num 1, Num 2]) ! 0 = Num 0.25
   \<and> transitionProb (newDistributionNonparametric [Num 1, Num 1, Num 2]) ! 1
       = Num (0.25 / 0.75)
   \<and> transitionProb (newDistributionNonparametric [Num 1, Num 1, Num 2]) ! 2 = Num 1.0
   \<and> length (transitionProb (newDistributionNonparametric [Num 1, Num 1, Num 2])) = 3
   \<and> maxDay (newDistributionNonparametric [Num 1, Num 1, Num 2]) = 3
   \<and> getTransitionProb (newDistributionNonparametric [Num 1, Num 1, Num 2]) 3 = Num 1
   \<and> getTransitionProb (newDistributionNonparametric [Num 1, Num 1, Num 2]) 100 = Num 1"
  by (simp add: run_simps)

text \<open>
  An input whose weights sum to 1 as real numbers need not be left unchanged. The four
  doubles \<open>0.5\<close>, \<open>2^(-54)\<close>, \<open>2^(-54)\<close> and \<open>0.5 - 2^(-53)\<close> sum to 1 exactly, but the
  constructor's sum is \<open>1 - 2^(-53)\<close>: each of the two small weights is lost to
  rounding. The test \<open>sumWaitingTime != 1\<close> succeeds, the weights are divided, and the
  first is stored as \<open>0.5 + 2^(-53)\<close>.
\<close>

theorem unchanged_counterexample:
  "sumWaitingTime [Num (1 / 2), Num (1 / 18014398509481984), Num (1 / 18014398509481984),
                   Num (4503599627370495 / 9007199254740992)] = Num 1
   \<and> sumWaitingTime64 [Num (1 / 2), Num (1 / 18014398509481984), Num (1 / 18014398509481984),
                   Num (4503599627370495 / 9007199254740992)]
       = Num (9007199254740991 / 9007199254740992)
   \<and> getWaitingTime (newDistributionNonparametric64
        [Num (1 / 2), Num (1 / 18014398509481984), Num (1 / 18014398509481984),
         Num (4503599627370495 / 9007199254740992)]) ! 0
       = Num (4503599627370497 / 9007199254740992)
   \<and> getWaitingTime (newDistributionNonparametric64
        [Num (1 / 2), Num (1 / 18014398509481984), Num (1 / 18014398509481984),
         Num (4503599627370495 / 9007199254740992)])
       \<noteq> [Num (1 / 2), Num (1 / 18014398509481984), Num (1 / 18014398509481984),
           Num (4503599627370495 / 9007199254740992)]"
proof -
  let ?u = "[Num (1 / 2), Num (1 / 18014398509481984), Num (1 / 18014398509481984),
             Num (4503599627370495 / 9007199254740992)]"
  have e: "sumWaitingTime ?u = Num 1"
    by (simp add: sumWaitingTime_def)
  have s: "sumWaitingTime64 ?u = Num (9007199254740991 / 9007199254740992)"
    by (simp add: sumWaitingTime64_def binary64_values)
  have w: "getWaitingTime (newDistributionNonparametric64 ?u) ! 0
             = Num (4503599627370497 / 9007199254740992)"
    by (simp add: getWaitingTime_def new64_waitingTime s binary64_values)
  have "getWaitingTime (newDistributionNonparametric64 ?u) ! 0 \<noteq> ?u ! 0"
    unfolding w by simp
  then have "getWaitingTime (newDistributionNonparametric64 ?u) \<noteq> ?u"
    by auto
  with e s w show ?thesis by simp
qed

text \<open>
  Claim C6, as amended. Constructing with an input sequence whose sum, as the
  constructor computes it in double arithmetic, is exactly 1 leaves the stored
  waiting-time sequence equal to the input; in particular the input \<open>[0.5, 0.5]\<close>
  yields the stored waiting times \<open>[0.5, 0.5]\<close> and the transition probabilities
  \<open>[0.5, 1.0]\<close>.
\<close>

theorem scenario_B:
  "(sumWaitingTime64 wt0 = Num 1
      \<longrightarrow> getWaitingTime (newDistributionNonparametric64 wt0) = wt0)
   \<and> getWaitingTime (newDistributionNonparametric64 [Num 0.5, Num 0.5])
       = [Num 0.5, Num 0.5]
   \<and> transitionProb (newDistributionNonparametric64 [Num 0.5, Num 0.5])
       = [Num 0.5, Num 1.0]"
  by (simp add: run64_simps)

theorem scenario_B_witness:
  "sumWaitingTime64 [Num 0.25, Num 0.75] = Num 1
   \<and> getWaitingTime (newDistributionNonparametric64 [Num 0.25, Num 0.75])
       = [Num 0.25, Num 0.75]"
proof -
  have s: "sumWaitingTime64 [Num 0.25, Num 0.75] = Num 1"
    by (simp add: sumWaitingTime64_def binary64_values)
  from scenario_B [of "[Num 0.25, Num 0.75]"] s show ?thesis by simp
qed

text \<open>
  Claim C8. For the input \<open>[1, 0, 0, 1]\<close> the constructed object stores the
  waiting-time sequence \<open>[0.5, 0, 0, 0.5]\<close>; the survival mass at the days 1 and 2 is
  \<open>0.5\<close>, still positive, so the transition probabilities there are 0; at day 3 the
  transition probability is 1.
\<close>

theorem scenario_C:
  "getWaitingTime (newDistributionNonparametric [Num 1, Num 0, Num 0, Num 1])
     = [Num 0.5, Num 0, Num 0, Num 0.5]
   \<and> survivalMass (getWaitingTime (newDistributionNonparametric [Num 1, Num 0, Num 0, Num 1])) 1
       = Num 0.5
   \<and> survivalMass (getWaitingTime (newDistributionNonparametric [Num 1, Num 0, Num 0, Num 1])) 2
       = Num 0.5
   \<and> transitionProb (newDistributionNonparametric [Num 1, Num 0, Num 0, Num 1]) ! 1 = Num 0
   \<and> transitionProb (newDistributionNonparametric [Num 1, Num 0, Num 0, Num 1]) ! 2 = Num 0
   \<and> transitionProb (newDistributionNonparametric [Num 1, Num 0, Num 0, Num 1]) ! 3 = Num 1"
  by (simp add: run_simps)

section \<open>Degenerate inputs\<close>

text \<open>
  On the empty input the sum is 0, which differs from 1, so the normalising loop is
  entered; it has no index to visit. Nothing is divided: both stored sequences are
  empty, none of the stored values is an infinity or NaN, and a query returns the
  number 1.
\<close>

theorem degenerate_empty_counterexample:
  "sumWaitingTime [] = Num 0
   \<and> undefinedValues (newDistributionNonparametric []) = []
   \<and> getWaitingTime (newDistributionNonparametric []) = []
   \<and> transitionProb (newDistributionNonparametric []) = []
   \<and> getTransitionProb (newDistributionNonparametric []) 0 = Num 1"
  by (simp add: undefinedValues_def run_simps)

text \<open>
  Claim C7, as amended. For a non-empty sequence of all-zero weights the sum is 0 and
  normalization divides every weight by it, zero by zero: the division is not guarded,
  the constructor returns an object and reports no error, and every stored waiting time
  is NaN. For the empty sequence the stored waiting-time sequence is empty.
\<close>

theorem degenerate_all_zero:
  "sumWaitingTime (replicate (Suc n) (Num 0)) = Num 0
   \<and> ddiv (Num 0) (sumWaitingTime (replicate (Suc n) (Num 0))) = NaN
   \<and> getWaitingTime (newDistributionNonparametric (replicate (Suc n) (Num 0)))
       = replicate (Suc n) NaN
   \<and> getWaitingTime (newDistributionNonparametric []) = []"
proof -
  have s: "sumWaitingTime (replicate (Suc n) (Num 0)) = Num 0"
    unfolding sumWaitingTime_def by (rule sumLoop_zeros)
  have "map (\<lambda>x. ddiv x (Num 0)) (replicate (Suc n) (Num 0)) = replicate (Suc n) NaN"
    by simp
  then have "getWaitingTime (newDistributionNonparametric (replicate (Suc n) (Num 0)))
       = replicate (Suc n) NaN"
    unfolding getWaitingTime_def new_waitingTime s by simp
  moreover have "getWaitingTime (newDistributionNonparametric []) = []"
    by (simp add: run_simps)
  ultimately show ?thesis
    using s by simp
qed

text \<open>
  Claim C9. Constructing with the empty sequence succeeds: both stored sequences are
  empty, \<open>maxDay\<close> is 0, \<open>getWaitingTime\<close> returns the empty sequence and
  \<open>getTransitionProb\<close> returns 1 at every index. The normalising loop and the
  transition-probability loop each return at once on the empty sequence, whatever
  the divisor: neither executes its body, so nothing is divided.
\<close>

theorem empty_input:
  "newDistributionNonparametric []
     = \<lparr>waitingTime = [], transitionProb = [], maxDay = 0, distName = ''nonparametric''\<rparr>
   \<and> getWaitingTime (newDistributionNonparametric []) = []
   \<and> getTransitionProb (newDistributionNonparametric []) index = Num 1
   \<and> normalizeLoop s 0 [] = []
   \<and> pushLoop [] 0 [] = []"
  by (simp add: newDistributionNonparametric_def calcTransitionProb_def Let_def
      uninitialized_def sumWaitingTime_def getWaitingTime_def getTransitionProb_def
      normalizeLoop.simps [of _ 0 "[]"] pushLoop.simps [of "[]" 0 "[]"])

section \<open>Scale invariance\<close>

text \<open>
  Claim C10. For every non-empty input sequence \<open>w\<close> whose sum \<open>s\<close> is a positive
  number and every positive constant \<open>c\<close> with \<open>c * s \<noteq> 1\<close>, constructing with the
  scaled input \<open>c \<cdot> w\<close> yields the same stored waiting-time sequence and the same
  transition-probability sequence as constructing with \<open>w\<close>, in exact arithmetic.
\<close>

theorem scale_invariance:
  assumes "wt0 \<noteq> []" "sumWaitingTime wt0 = Num s" "0 < s" "0 < c" "c * s \<noteq> 1"
  shows "getWaitingTime (newDistributionNonparametric (scaleWeights c wt0))
           = getWaitingTime (newDistributionNonparametric wt0)
       \<and> transitionProb (newDistributionNonparametric (scaleWeights c wt0))
           = transitionProb (newDistributionNonparametric wt0)"
proof -
  from sumWaitingTime_finite_D [OF assms(2)] obtain rs
    where rs: "wt0 = map Num rs" "s = sum_list rs"
    by blast
  have sc: "scaleWeights c wt0 = map Num (map (\<lambda>r. c * r) rs)"
    by (simp add: scaleWeights_def rs(1))
  have "sum_list (map (\<lambda>r. c * r) rs) = c * s"
    by (simp add: rs(2) sum_list_const_mult)
  then have ssum: "sumWaitingTime (scaleWeights c wt0) = Num (c * s)"
    unfolding sc sumWaitingTime_Num by simp
  have "waitingTime (newDistributionNonparametric (scaleWeights c wt0))
          = map (\<lambda>x. ddiv x (Num (c * s))) (scaleWeights c wt0)"
    unfolding new_waitingTime ssum using assms(5) by simp
  also have "\<dots> = map Num (map (\<lambda>r. r / s) rs)"
    unfolding sc using assms(3,4) by simp
  finally have lhs: "waitingTime (newDistributionNonparametric (scaleWeights c wt0))
                       = map Num (map (\<lambda>r. r / s) rs)" .
  have rhs: "waitingTime (newDistributionNonparametric wt0) = map Num (map (\<lambda>r. r / s) rs)"
  proof (cases "s = 1")
    case True
    then show ?thesis
      using assms(2) rs(1) by (simp add: new_waitingTime)
  next
    case False
    then show ?thesis
      using assms(2,3) rs(1) by (simp add: new_waitingTime)
  qed
  from lhs rhs have "waitingTime (newDistributionNonparametric (scaleWeights c wt0))
                       = waitingTime (newDistributionNonparametric wt0)"
    by simp
  from new_determined [OF this] show ?thesis
    by (simp add: getWaitingTime_def)
qed

theorem scale_invariance_witness:
  "[Num 1, Num 3] \<noteq> [] \<and> sumWaitingTime [Num 1, Num 3] = Num 4 \<and> (0::real) < 4
   \<and> (0::real) < 5 \<and> (5::real) * 4 \<noteq> 1
   \<and> scaleWeights 5 [Num 1, Num 3] = [Num 5, Num 15]
   \<and> getWaitingTime (newDistributionNonparametric [Num 5, Num 15])
       = getWaitingTime (newDistributionNonparametric [Num 1, Num 3])
   \<and> transitionProb (newDistributionNonparametric [Num 5, Num 15])
       = transitionProb (newDistributionNonparametric [Num 1, Num 3])"
proof -
  have s: "sumWaitingTime [Num 1, Num 3] = Num 4"
    by (simp add: sumWaitingTime_def)
  have c: "scaleWeights 5 [Num 1, Num 3] = [Num 5, Num 15]"
    by (simp add: scaleWeights_def)
  from scale_invariance [OF _ s, of 5] s c show ?thesis by simp
qed

end
